theory Spec2Isabelle
  imports Main "HOL-Library.Word"
begin

section \<open>JavaScript values used by the command line tool\<close>

text \<open>
  A JavaScript string is a sequence of UTF-16 code units: \<open>length\<close>, \<open>slice\<close>,
  \<open>startsWith\<close>, \<open>includes\<close> and \<open>split\<close> all count code units. ASCII text is written
  with \<open>ascii\<close>; an emoji is written as its code units.
\<close>

type_synonym jsstring = "16 word list"

definition ascii :: "string \<Rightarrow> jsstring" where
  "ascii s = map (\<lambda>c. of_nat (of_char c)) s"

definition dquote :: "16 word" where
  "dquote = 0x22"

text \<open>\<open>s.startsWith(p)\<close> and \<open>s.includes(p)\<close>.\<close>

definition startsWith :: "jsstring \<Rightarrow> jsstring \<Rightarrow> bool" where
  "startsWith s p = (take (length p) s = p)"

fun includes_str :: "jsstring \<Rightarrow> jsstring \<Rightarrow> bool" where
  "includes_str [] p = (p = [])"
| "includes_str (x # xs) p = (startsWith (x # xs) p \<or> includes_str xs p)"

text \<open>
  \<open>s.split(sep)\<close> for a separator of one code unit. The result is never empty: the
  empty string splits into one empty string.
\<close>

fun split :: "16 word \<Rightarrow> jsstring \<Rightarrow> jsstring list" where
  "split sep [] = [[]]"
| "split sep (x # xs) =
     (if x = sep then [] # split sep xs
      else (case split sep xs of
              [] \<Rightarrow> [[x]]
            | y # ys \<Rightarrow> (x # y) # ys))"

text \<open>\<open>xs[i]\<close> on an array: \<open>undefined\<close> out of range.\<close>

fun nth_opt :: "'a list \<Rightarrow> nat \<Rightarrow> 'a option" where
  "nth_opt [] i = None"
| "nth_opt (x # xs) 0 = Some x"
| "nth_opt (x # xs) (Suc i) = nth_opt xs i"

text \<open>The code units that \<open>trim\<close> removes: white space and line terminators.\<close>

definition isLineTerminator :: "16 word \<Rightarrow> bool" where
  "isLineTerminator c = (c = 0x0A \<or> c = 0x0D \<or> c = 0x2028 \<or> c = 0x2029)"

definition isWhiteSpace :: "16 word \<Rightarrow> bool" where
  "isWhiteSpace c =
     (c = 0x09 \<or> c = 0x0B \<or> c = 0x0C \<or> c = 0x20 \<or> c = 0xA0 \<or> c = 0xFEFF \<or>
      c = 0x1680 \<or> (0x2000 \<le> c \<and> c \<le> 0x200A) \<or> c = 0x202F \<or> c = 0x205F \<or>
      c = 0x3000 \<or> isLineTerminator c)"

definition trim :: "jsstring \<Rightarrow> jsstring" where
  "trim s = rev (dropWhile isWhiteSpace (rev (dropWhile isWhiteSpace s)))"

text \<open>\<open>s.slice(0, -1)\<close>: all but the last code unit.\<close>

definition slice_0_minus1 :: "jsstring \<Rightarrow> jsstring" where
  "slice_0_minus1 s = butlast s"

text \<open>
  \<open>s.replace(/:(.*)/, "")\<close>: the first colon and everything after it up to the next
  line terminator are removed. \<open>s.replace(/"/, "")\<close>: the first double quote is removed.
\<close>

definition replace_colon_rest :: "jsstring \<Rightarrow> jsstring" where
  "replace_colon_rest s =
     (case dropWhile (\<lambda>c. c \<noteq> 0x3A) s of
        [] \<Rightarrow> s
      | c # rest \<Rightarrow> takeWhile (\<lambda>c. c \<noteq> 0x3A) s @ dropWhile (\<lambda>c. \<not> isLineTerminator c) rest)"

definition replace_first_quote :: "jsstring \<Rightarrow> jsstring" where
  "replace_first_quote s = remove1 dquote s"

text \<open>A number in a template literal: its decimal digits.\<close>

fun number_toString :: "nat \<Rightarrow> jsstring" where
  "number_toString n =
     (if n < 10 then [0x30 + of_nat n]
      else number_toString (n div 10) @ [0x30 + of_nat (n mod 10)])"

declare number_toString.simps [simp del]

text \<open>\<open>Array.prototype.toString\<close> of an array of strings: the elements joined by commas.\<close>

fun array_toString :: "jsstring list \<Rightarrow> jsstring" where
  "array_toString [] = []"
| "array_toString [x] = x"
| "array_toString (x # y # ys) = x @ ascii '','' @ array_toString (y # ys)"

text \<open>
  \<open>JSON.stringify\<close> of a string: the string in double quotes, with the quote, the
  backslash, the control characters and lone surrogates escaped.
\<close>

definition hex_digit :: "nat \<Rightarrow> 16 word" where
  "hex_digit d = (if d < 10 then 0x30 + of_nat d else 0x61 + of_nat (d - 10))"

definition unicode_escape :: "16 word \<Rightarrow> jsstring" where
  "unicode_escape c =
     [0x5C, 0x75] @ [hex_digit (unat c div 4096 mod 16), hex_digit (unat c div 256 mod 16),
                      hex_digit (unat c div 16 mod 16), hex_digit (unat c mod 16)]"

definition isLeadSurrogate :: "16 word \<Rightarrow> bool" where
  "isLeadSurrogate c = (0xD800 \<le> c \<and> c \<le> 0xDBFF)"

definition isTrailSurrogate :: "16 word \<Rightarrow> bool" where
  "isTrailSurrogate c = (0xDC00 \<le> c \<and> c \<le> 0xDFFF)"

definition quote_unit :: "16 word \<Rightarrow> jsstring" where
  "quote_unit c =
     (if c = 0x08 then [0x5C, 0x62]
      else if c = 0x09 then [0x5C, 0x74]
      else if c = 0x0A then [0x5C, 0x6E]
      else if c = 0x0C then [0x5C, 0x66]
      else if c = 0x0D then [0x5C, 0x72]
      else if c = 0x22 then [0x5C, 0x22]
      else if c = 0x5C then [0x5C, 0x5C]
      else if c < 0x20 \<or> isLeadSurrogate c \<or> isTrailSurrogate c then unicode_escape c
      else [c])"

fun quote_units :: "jsstring \<Rightarrow> jsstring" where
  "quote_units [] = []"
| "quote_units [c] = quote_unit c"
| "quote_units (c # d # cs) =
     (if isLeadSurrogate c \<and> isTrailSurrogate d then c # d # quote_units cs
      else quote_unit c @ quote_units (d # cs))"

definition JSON_stringify :: "jsstring \<Rightarrow> jsstring" where
  "JSON_stringify s = [dquote] @ quote_units s @ [dquote]"

section \<open>Processes, prompts and the console\<close>

text \<open>
  The \<open>code\<close> of the error that \<open>child_process.exec\<close> reports: the exit status of the
  child, a string such as \<open>ENOENT\<close> when it could not be started, or \<open>null\<close> when a
  signal ended it.
\<close>

datatype js_code = CodeNumber int | CodeString jsstring | CodeNull

record exec_error =
  code :: js_code

text \<open>What \<open>child_process.exec\<close> passes to its callback.\<close>

record child_result =
  error :: "exec_error option"
  stdout :: jsstring
  stderr :: jsstring

record ExecResult =
  res_stdout :: jsstring
  res_stderr :: jsstring

datatype js_value = JStr jsstring | JErr exec_error | JBool bool | JNum int

text \<open>What a run does to the outside, in order.\<close>

datatype event =
    ConsoleLog "js_value list"
  | ConsoleError "js_value list"
  | Exec jsstring
  | PromptInput jsstring
  | PromptList jsstring "jsstring list"
  | PromptConfirm jsstring

text \<open>
  An asynchronous function ends by returning, by throwing (a rejected promise), or it
  never ends because a prompt is never answered with an accepted value.
\<close>

datatype failure = Rejected exec_error | Unanswered

type_synonym 'a run = "event list \<times> (failure + 'a)"

definition ret :: "'a \<Rightarrow> 'a run" where
  "ret x = ([], Inr x)"

definition emit :: "event \<Rightarrow> unit run" where
  "emit e = ([e], Inr ())"

definition bind_run :: "'a run \<Rightarrow> ('a \<Rightarrow> 'b run) \<Rightarrow> 'b run" where
  "bind_run m f =
     (case m of
        (t, Inl e) \<Rightarrow> (t, Inl e)
      | (t, Inr x) \<Rightarrow> (case f x of (t', r) \<Rightarrow> (t @ t', r)))"

text \<open>
  The inputs of one run: the parsed command line, the installed version (imported from
  \<open>version.js\<close> or \<open>package.json\<close>, which are not part of the source given), the result of
  every child process by command, and what the user answers to each prompt.
\<close>

record opts =
  opt_learn :: bool
  opt_feat :: bool
  opt_style :: bool
  opt_fix :: bool
  opt_chore :: bool
  opt_doc :: bool
  opt_refactor :: bool
  opt_test :: bool
  opt_try :: bool
  opt_build :: bool

record legacy_opts =
  lopt_style :: bool
  lopt_bug :: bool
  lopt_improve :: bool
  lopt_release :: bool
  lopt_new :: bool
  lopt_doc :: bool
  lopt_try :: bool
  lopt_test :: bool

record 'o world =
  options :: 'o
  args :: "jsstring list"
  version :: jsstring
  child :: "jsstring \<Rightarrow> child_result"
  answer_node_modules :: bool
  answer_many_files :: bool
  typed_messages :: "jsstring list"
  selected_type :: nat

text \<open>
  An \<open>input\<close> prompt of inquirer with a \<open>validate\<close> function: each submitted line is
  validated, and the prompt ends with the first line for which \<open>validate\<close> returns
  \<open>true\<close>. When no submitted line is accepted the prompt stays open.
\<close>

fun input_loop :: "(jsstring \<Rightarrow> event list \<times> js_value) \<Rightarrow> jsstring list \<Rightarrow> jsstring run" where
  "input_loop v [] = ([], Inl Unanswered)"
| "input_loop v (a # as) =
     (case v a of
        (t, r) \<Rightarrow>
          if r = JBool True then (t, Inr a)
          else (case input_loop v as of (t', r') \<Rightarrow> (t @ t', r')))"

definition prompt_input ::
  "'o world \<Rightarrow> jsstring \<Rightarrow> (jsstring \<Rightarrow> event list \<times> js_value) \<Rightarrow> jsstring run" where
  "prompt_input w message v =
     (case input_loop v (typed_messages w) of (t, r) \<Rightarrow> (PromptInput message # t, r))"

text \<open>A \<open>list\<close> prompt: the user picks one of the choices.\<close>

definition prompt_list :: "'o world \<Rightarrow> jsstring \<Rightarrow> jsstring list \<Rightarrow> jsstring run" where
  "prompt_list w message choices =
     ([PromptList message choices],
      if selected_type w < length choices then Inr (choices ! selected_type w)
      else Inl Unanswered)"

text \<open>A \<open>confirm\<close> prompt: the user answers yes or no.\<close>

definition prompt_confirm :: "jsstring \<Rightarrow> bool \<Rightarrow> bool run" where
  "prompt_confirm message answer = ([PromptConfirm message], Inr answer)"

section \<open>The command line tool\<close>

definition STAGED_FILES_WARNING_THRESHOLD :: nat where
  "STAGED_FILES_WARNING_THRESHOLD = 30"

record CommitType =
  emoji :: jsstring
  name :: jsstring
  description :: jsstring

text \<open>The table of commit types, in the order the object literal lists its keys.\<close>

definition commitTypes :: "(jsstring \<times> CommitType) list" where
  "commitTypes =
     [(ascii ''feat'',
         \<lparr>emoji = [0xD83D, 0xDCE6], name = ascii ''feat'', description = ascii ''new feature''\<rparr>),
      (ascii ''style'',
         \<lparr>emoji = [0xD83D, 0xDC85], name = ascii ''style'',
          description = ascii ''layout or style change''\<rparr>),
      (ascii ''fix'',
         \<lparr>emoji = [0xD83D, 0xDC1B], name = ascii ''fix'', description = ascii ''fix bug''\<rparr>),
      (ascii ''chore'',
         \<lparr>emoji = [0xD83E, 0xDDF9], name = ascii ''chore'',
          description = ascii ''update packages, gitignore etc; (no prod code)''\<rparr>),
      (ascii ''doc'',
         \<lparr>emoji = [0xD83D, 0xDCD6], name = ascii ''doc'', description = ascii ''documentation''\<rparr>),
      (ascii ''refactor'',
         \<lparr>emoji = [0xD83D, 0xDEE0, 0x20], name = ascii ''refactor'',
          description = ascii ''refactoring''\<rparr>),
      (ascii ''content'',
         \<lparr>emoji = [0xD83D, 0xDCDD], name = ascii ''content'',
          description = ascii ''content changes''\<rparr>),
      (ascii ''test'',
         \<lparr>emoji = [0x2705], name = ascii ''test'',
          description = ascii ''add/edit tests (no prod code)''\<rparr>),
      (ascii ''try'',
         \<lparr>emoji = [0xD83E, 0xDD1E], name = ascii ''try'',
          description = ascii ''add untested to production''\<rparr>),
      (ascii ''build'',
         \<lparr>emoji = [0xD83D, 0xDE80], name = ascii ''build'',
          description = ascii ''build for production''\<rparr>)]"

definition Object_values :: "('k \<times> 'v) list \<Rightarrow> 'v list" where
  "Object_values obj = map snd obj"

text \<open>The short and long names of the options that \<open>main\<close> declares.\<close>

definition option_flags :: "(string \<times> string) list" where
  "option_flags =
     [([], ''learn''), (''f'', ''feat''), (''s'', ''style''), (''x'', ''fix''),
      (''c'', ''chore''), (''d'', ''doc''), (''r'', ''refactor''), (''t'', ''test''),
      (''y'', ''try''), (''b'', ''build'')]"

text \<open>
  \<open>validate\<close> of the commit message question: \<open>true\<close> for a string that is not empty;
  for the empty string it logs a line and returns \<open>0\<close>.
\<close>

definition validate :: "jsstring \<Rightarrow> event list \<times> js_value" where
  "validate v =
     (if v \<noteq> [] then ([], JBool True)
      else ([ConsoleLog [JStr ([0xD83D, 0xDE15] @ ascii ''  Please enter a valid commit message.'')]],
            JNum 0))"

text \<open>A value in a condition: \<open>undefined\<close> and the empty string are falsy.\<close>

definition is_falsy :: "jsstring option \<Rightarrow> bool" where
  "is_falsy v = (case v of None \<Rightarrow> True | Some s \<Rightarrow> s = [])"

text \<open>A value in a template literal.\<close>

definition template :: "jsstring option \<Rightarrow> jsstring" where
  "template v = (case v of None \<Rightarrow> ascii ''undefined'' | Some s \<Rightarrow> s)"

text \<open>\<open>when\<close> of the commit message question: there is no commit message.\<close>

definition when_commitMessage :: "opts world \<Rightarrow> bool" where
  "when_commitMessage w = (is_falsy (nth_opt (args w) 0) \<or> length (args w) = 0)"

definition choices :: "jsstring list" where
  "choices = map (\<lambda>ty. name ty @ ascii '' '' @ emoji ty @ ascii '': '' @ description ty)
                 (Object_values commitTypes)"

record answers =
  answers_commitMessage :: "jsstring option"
  answers_commitType :: jsstring

text \<open>
  \<open>inquirer.prompt(questions)\<close>: the commit message question, when there is no commit
  message, then the commit type question.
\<close>

definition prompt_questions :: "opts world \<Rightarrow> answers run" where
  "prompt_questions w =
     bind_run
       (if when_commitMessage w
        then bind_run (prompt_input w (ascii ''What's your commit title/message?'') validate)
               (\<lambda>m. ret (Some m))
        else ret None)
       (\<lambda>cm. bind_run (prompt_list w (ascii ''Select a commit type:'') choices)
          (\<lambda>ct. ret \<lparr>answers_commitMessage = cm, answers_commitType = ct\<rparr>))"

text \<open>
  \<open>exec\<close>: the promise rejects with the error of the child, if there is one. An error
  is an object, so it is truthy where \<open>makeCommit\<close> tests it.
\<close>

definition exec :: "'o world \<Rightarrow> jsstring \<Rightarrow> event list \<times> (exec_error + ExecResult)" where
  "exec w command =
     ([Exec command],
      case error (child w command) of
        Some e \<Rightarrow> Inl e
      | None \<Rightarrow> Inr \<lparr>res_stdout = stdout (child w command),
                     res_stderr = stderr (child w command)\<rparr>)"

definition npm_show_command :: jsstring where
  "npm_show_command = ascii ''npm show git-emoji-commit version''"

definition update_notice :: "jsstring \<Rightarrow> event" where
  "update_notice latestVersion =
     ConsoleLog [JStr ([0x1B] @ ascii ''[32m''),
                 JStr ([0xD83D, 0xDE0E] @ ascii ''  Update available: '' @ latestVersion),
                 JStr ([0x1B] @ ascii ''[37m''),
                 JStr (ascii ''run $ npm update -g git-emoji-commit'')]"

text \<open>
  \<open>checkVersion\<close> catches every error of its own, so it only leaves events. The notice
  is shown when the first or the second component of the two versions differ.
\<close>

definition checkVersion :: "'o world \<Rightarrow> event list" where
  "checkVersion w =
     (case exec w npm_show_command of
        (t, Inr r) \<Rightarrow>
          (let latestVersion = trim (res_stdout r);
               currentVersion = version w
           in t @ (if nth_opt (split 0x2E latestVersion) 0 \<noteq> nth_opt (split 0x2E currentVersion) 0 \<or>
                      nth_opt (split 0x2E latestVersion) 1 \<noteq> nth_opt (split 0x2E currentVersion) 1
                   then [update_notice latestVersion] else []))
      | (t, Inl err) \<Rightarrow> t @ [ConsoleError [JStr (ascii ''Error checking for updates:''), JErr err]])"

definition git_diff_command :: jsstring where
  "git_diff_command = ascii ''git diff --cached --name-only''"

definition getStagedFiles :: "'o world \<Rightarrow> jsstring list run" where
  "getStagedFiles w =
     (case exec w git_diff_command of
        (t, Inr r) \<Rightarrow> (t, Inr (split 0x0A (trim (res_stdout r))))
      | (t, Inl err) \<Rightarrow>
          if code err = CodeNumber 1 then (t, Inr []) else (t, Inl (Rejected err)))"

definition git_commit_command :: "jsstring \<Rightarrow> jsstring \<Rightarrow> jsstring" where
  "git_commit_command commitTypeFormated commitMessage =
     ascii ''git commit -m '' @ [dquote] @ commitTypeFormated @ ascii '': '' @ commitMessage @
     [dquote]"

text \<open>
  \<open>makeCommit\<close> does not wait for \<open>checkVersion\<close>; nothing follows \<open>makeCommit\<close> in
  \<open>main\<close>, so the events of \<open>checkVersion\<close> are the last of the run.
\<close>

definition makeCommit :: "'o world \<Rightarrow> jsstring \<Rightarrow> jsstring \<Rightarrow> unit run" where
  "makeCommit w commitType commitMessage =
     (let commitTypeFormated = replace_first_quote (replace_colon_rest commitType)
      in case exec w (git_commit_command commitTypeFormated commitMessage) of
           (t, Inr r) \<Rightarrow>
             (t @ (if length (res_stdout r) > 0
                   then [ConsoleLog [JStr (ascii ''* '' @ res_stdout r)]] else [])
                @ (if length (res_stderr r) > 0
                   then [ConsoleLog [JStr (ascii ''# '' @ res_stderr r)]] else [])
                @ checkVersion w,
              Inr ())
         | (t, Inl err) \<Rightarrow>
             (t @ (if code err = CodeNumber 128
                   then [ConsoleError [JStr (ascii
                           ''Error: Committing is not possible because you have unmerged files.'')],
                         ConsoleError [JStr (ascii ''Please resolve the conflicts and try again.'')]]
                   else [ConsoleError [JStr (ascii ''An unknown error occurred:''), JErr err]]),
              Inr ()))"

definition node_modules_question :: jsstring where
  "node_modules_question =
     [0xD83E, 0xDD14] @
     ascii '' 'node_modules/' is staged for commit. Are you sure you want to continue?''"

definition confirmCommitWithNodeModules :: "'o world \<Rightarrow> bool run" where
  "confirmCommitWithNodeModules w = prompt_confirm node_modules_question (answer_node_modules w)"

definition many_files_question :: "nat \<Rightarrow> jsstring" where
  "many_files_question stagedFilesCount =
     [0xD83E, 0xDD14] @ ascii '' You are committing '' @ number_toString stagedFilesCount @
     ascii '' (many) files. Are you sure you want to continue?''"

definition confirmCommitHasManyFiles :: "'o world \<Rightarrow> nat \<Rightarrow> bool run" where
  "confirmCommitHasManyFiles w stagedFilesCount =
     prompt_confirm (many_files_question stagedFilesCount) (answer_many_files w)"

definition canceled :: event where
  "canceled = ConsoleLog [JStr ([0x274C] @ ascii '' Commit canceled.'')]"

definition looks_good :: event where
  "looks_good = ConsoleLog [JStr ([0xD83D, 0xDC4D] @ ascii '' Commit message looks good.'')]"

definition no_files_staged :: event where
  "no_files_staged =
     ConsoleLog [JStr ([0xD83E, 0xDD37] @
       ascii '' There are no files staged to commit. Stage some files then try again.'')]"

definition learn_more :: event where
  "learn_more =
     ConsoleLog [JStr ([0xD83D, 0xDCDA] @ ascii
       '' Learn more about commit types here: https://www.conventionalcommits.org/en/v1.0.0/#summary'')]"

text \<open>The type of the table whose prefix (emoji, two spaces, name) starts the message.\<close>

definition find_commitType :: "jsstring \<Rightarrow> CommitType option" where
  "find_commitType commitMessage =
     List.find (\<lambda>ty. startsWith commitMessage (emoji ty @ ascii ''  '' @ name ty))
       (Object_values commitTypes)"

text \<open>
  \<open>main\<close>, in the three parts that its early returns divide it into. The last part
  takes the commit message from the first argument, asks for what is missing and commits.
\<close>

definition main_message :: "opts world \<Rightarrow> unit run" where
  "main_message w =
     (let commitMessage = nth_opt (args w) 0
      in if is_falsy commitMessage
         then bind_run (prompt_questions w)
                (\<lambda>answers. makeCommit w (answers_commitType answers)
                   (template (answers_commitMessage answers)))
         else (case find_commitType (template commitMessage) of
                 None \<Rightarrow>
                   bind_run (prompt_questions w)
                     (\<lambda>answers. makeCommit w (answers_commitType answers) (template commitMessage))
               | Some ty \<Rightarrow> emit looks_good))"

text \<open>The part from the check of the number of staged files on.\<close>

definition main_many_files :: "opts world \<Rightarrow> jsstring list \<Rightarrow> unit run" where
  "main_many_files w stagedFiles =
     (if length stagedFiles > STAGED_FILES_WARNING_THRESHOLD
      then bind_run (confirmCommitHasManyFiles w (length stagedFiles))
             (\<lambda>shouldProceed. if \<not> shouldProceed then emit canceled else main_message w)
      else main_message w)"

definition main :: "opts world \<Rightarrow> unit run" where
  "main w =
     (if opt_learn (options w) then emit learn_more
      else bind_run (getStagedFiles w)
        (\<lambda>stagedFiles.
           if length stagedFiles = 0 then emit no_files_staged
           else if list_ex (\<lambda>file. includes_str file (ascii ''node_modules'')) stagedFiles
           then bind_run (confirmCommitWithNodeModules w)
                  (\<lambda>shouldProceed.
                     if \<not> shouldProceed then emit canceled else main_many_files w stagedFiles)
           else main_many_files w stagedFiles))"

section \<open>The earlier version of the tool\<close>

text \<open>
  The first program of the source file: the options select the commit type, and without
  an option the type is asked for. Its \<open>validate\<close> function is, word for word, the one
  above. Two of its options are declared with the short name \<open>-r\<close>.
\<close>

definition legacy_option_flags :: "(string \<times> string) list" where
  "legacy_option_flags =
     [(''s'', ''style''), (''b'', ''bug''), (''i'', ''improve''), (''r'', ''release''),
      (''n'', ''new''), (''d'', ''doc''), (''r'', ''try''), (''t'', ''test'')]"

definition legacy_choices :: "jsstring list" where
  "legacy_choices =
     [[0xD83D, 0xDC1B] @ ascii ''  BUG: fix/squash bug'',
      [0xD83D, 0xDCD6] @ ascii ''  DOC: documentation'',
      [0x26A1] @ ascii ''  IMPROVE: refactoring'',
      [0xD83D, 0xDCE6] @ ascii ''  NEW: addition'',
      [0xD83D, 0xDC85] @ ascii ''  STYLE: layout or style change'',
      [0x2705] @ ascii ''  TEST: add/edit tests'',
      [0xD83E, 0xDD1E] @ ascii ''  TRY: add untested to production'',
      [0xD83D, 0xDE80] @ ascii ''  RELEASE: release feature'']"

definition legacy_update_notice :: "jsstring \<Rightarrow> event" where
  "legacy_update_notice out =
     ConsoleLog [JStr ([0x1B] @ ascii ''[32m''),
                 JStr ([0xD83D, 0xDE0E] @ ascii ''  Update available: '' @ out),
                 JStr ([0x1B] @ ascii ''[37m''),
                 JStr (ascii ''run $ npm update i -g git-emoji-commit'')]"

text \<open>
  The earlier \<open>checkVersion\<close> compares the two versions without their last code unit.
  Its callback ignores the error of the child.
\<close>

definition legacy_checkVersion :: "'o world \<Rightarrow> event list" where
  "legacy_checkVersion w =
     (let out = stdout (child w npm_show_command)
      in Exec npm_show_command #
         (if slice_0_minus1 (trim (version w)) \<noteq> slice_0_minus1 (trim out)
          then [legacy_update_notice out] else []))"

definition legacy_makeCommit :: "'o world \<Rightarrow> jsstring \<Rightarrow> event list" where
  "legacy_makeCommit w command =
     [Exec command, ConsoleLog [JStr (stdout (child w command))]] @ legacy_checkVersion w"

text \<open>The command of an option: the label of the option, then all arguments.\<close>

definition legacy_command :: "jsstring \<Rightarrow> jsstring list \<Rightarrow> jsstring" where
  "legacy_command label as = git_commit_command label (array_toString as)"

text \<open>
  The branch without an option: the type is asked for, then the message if there is
  none. The test \<open>!program.args\<close> of the source is left out: an array is truthy.
\<close>

definition legacy_interactive :: "legacy_opts world \<Rightarrow> unit run" where
  "legacy_interactive w =
     bind_run (emit (ConsoleLog [JStr (ascii ''Pick a commit type. See more: gc --help'')]))
       (\<lambda>_. bind_run (prompt_list w (ascii ''Select a commit message type:'') legacy_choices)
          (\<lambda>answer.
             let commitType = JSON_stringify answer;
                 commitTypeCleaned = replace_first_quote (replace_colon_rest commitType)
             in bind_run
                  (if is_falsy (nth_opt (args w) 0) \<or> length (args w) = 0
                   then bind_run
                          (prompt_input w (ascii ''What's your commit title/message?'') validate)
                          (\<lambda>m. (legacy_makeCommit w (git_commit_command commitTypeCleaned m),
                                Inr ()))
                   else ret ())
                  (\<lambda>_. if \<not> is_falsy (nth_opt (args w) 0)
                       then (legacy_makeCommit w (legacy_command commitTypeCleaned (args w)),
                             Inr ())
                       else ret ())))"

definition legacy_main :: "legacy_opts world \<Rightarrow> unit run" where
  "legacy_main w =
     (if lopt_style (options w)
      then (legacy_makeCommit w (legacy_command ([0xD83D, 0xDC85] @ ascii ''  STYLE'') (args w)), Inr ())
      else if lopt_bug (options w)
      then (legacy_makeCommit w (legacy_command ([0xD83D, 0xDC1B] @ ascii ''  BUG'') (args w)), Inr ())
      else if lopt_improve (options w)
      then (legacy_makeCommit w (legacy_command ([0x26A1] @ ascii ''  IMPROVE'') (args w)), Inr ())
      else if lopt_release (options w)
      then (legacy_makeCommit w (legacy_command ([0xD83D, 0xDE80] @ ascii ''  RELEASE'') (args w)), Inr ())
      else if lopt_new (options w)
      then (legacy_makeCommit w (legacy_command ([0xD83D, 0xDCE6] @ ascii ''  NEW'') (args w)), Inr ())
      else if lopt_doc (options w)
      then (legacy_makeCommit w (legacy_command ([0xD83D, 0xDCD6] @ ascii ''  DOC'') (args w)), Inr ())
      else if lopt_try (options w)
      then (legacy_makeCommit w (legacy_command ([0xD83E, 0xDD1E] @ ascii ''  TRY'') (args w)), Inr ())
      else if lopt_test (options w)
      then (legacy_makeCommit w (legacy_command ([0x2705] @ ascii ''  TEST'') (args w)), Inr ())
      else legacy_interactive w)"

section \<open>Reading a run\<close>

definition is_commit_command :: "jsstring \<Rightarrow> bool" where
  "is_commit_command c = startsWith c (ascii ''git commit'')"

fun is_commit :: "event \<Rightarrow> bool" where
  "is_commit (Exec c) = is_commit_command c"
| "is_commit _ = False"

fun is_exec :: "event \<Rightarrow> bool" where
  "is_exec (Exec c) = True"
| "is_exec _ = False"

fun is_console :: "event \<Rightarrow> bool" where
  "is_console (ConsoleLog vs) = True"
| "is_console (ConsoleError vs) = True"
| "is_console _ = False"

fun is_prompt :: "event \<Rightarrow> bool" where
  "is_prompt (PromptInput q) = True"
| "is_prompt (PromptList q cs) = True"
| "is_prompt (PromptConfirm q) = True"
| "is_prompt _ = False"

fun is_confirm :: "event \<Rightarrow> bool" where
  "is_confirm (PromptConfirm q) = True"
| "is_confirm _ = False"

fun is_type_prompt :: "event \<Rightarrow> bool" where
  "is_type_prompt (PromptList q cs) = True"
| "is_type_prompt _ = False"

fun is_message_prompt :: "event \<Rightarrow> bool" where
  "is_message_prompt (PromptInput q) = True"
| "is_message_prompt _ = False"

text \<open>
  A message bears a recognized type prefix when it starts with the emoji of a type of
  the table, two spaces and the name of that type.
\<close>

definition has_recognized_prefix :: "jsstring \<Rightarrow> bool" where
  "has_recognized_prefix m =
     list_ex (\<lambda>ty. startsWith m (emoji ty @ ascii ''  '' @ name ty)) (Object_values commitTypes)"

text \<open>The label that the options of the earlier version select, in the order of its tests.\<close>

definition legacy_label :: "legacy_opts \<Rightarrow> jsstring option" where
  "legacy_label os =
     (if lopt_style os then Some ([0xD83D, 0xDC85] @ ascii ''  STYLE'')
      else if lopt_bug os then Some ([0xD83D, 0xDC1B] @ ascii ''  BUG'')
      else if lopt_improve os then Some ([0x26A1] @ ascii ''  IMPROVE'')
      else if lopt_release os then Some ([0xD83D, 0xDE80] @ ascii ''  RELEASE'')
      else if lopt_new os then Some ([0xD83D, 0xDCE6] @ ascii ''  NEW'')
      else if lopt_doc os then Some ([0xD83D, 0xDCD6] @ ascii ''  DOC'')
      else if lopt_try os then Some ([0xD83E, 0xDD1E] @ ascii ''  TRY'')
      else if lopt_test os then Some ([0x2705] @ ascii ''  TEST'')
      else None)"

text \<open>The type label that \<open>makeCommit\<close> puts in front of the message.\<close>

definition commitTypeFormated :: "jsstring \<Rightarrow> jsstring" where
  "commitTypeFormated commitType = replace_first_quote (replace_colon_rest commitType)"

definition staged_node_modules :: "jsstring list \<Rightarrow> bool" where
  "staged_node_modules stagedFiles =
     list_ex (\<lambda>file. includes_str file (ascii ''node_modules'')) stagedFiles"

text \<open>The confirmations that a run asks for, given the staged files.\<close>

definition confirmations :: "jsstring list \<Rightarrow> event list" where
  "confirmations stagedFiles =
     (if staged_node_modules stagedFiles then [PromptConfirm node_modules_question] else []) @
     (if length stagedFiles > 30
      then [PromptConfirm (many_files_question (length stagedFiles))] else [])"

text \<open>
  A run gets to the commit message when it is not stopped before: the \<open>learn\<close> option is
  not set, the staged files are listed and there is one, and the user accepts each
  confirmation that is asked for.
\<close>

definition reaches_message :: "opts world \<Rightarrow> bool" where
  "reaches_message w =
     (\<not> opt_learn (options w) \<and>
      (case snd (getStagedFiles w) of
         Inl e \<Rightarrow> False
       | Inr stagedFiles \<Rightarrow>
           stagedFiles \<noteq> [] \<and>
           (staged_node_modules stagedFiles \<longrightarrow> answer_node_modules w) \<and>
           (length stagedFiles > 30 \<longrightarrow> answer_many_files w)))"

text \<open>
  How the process ends: nothing in \<open>main\<close> sets an exit status, so the process ends
  with success when \<open>main\<close> returns, and a thrown error is left to the runtime.
\<close>

definition exits_successfully :: "unit run \<Rightarrow> bool" where
  "exits_successfully r = (snd r = Inr ())"

text \<open>The components of a version, as \<open>checkVersion\<close> takes them: the parts between dots.\<close>

definition version_component :: "jsstring \<Rightarrow> nat \<Rightarrow> jsstring option" where
  "version_component v i = nth_opt (split 0x2E v) i"

section \<open>Example runs\<close>

definition succeeded :: "jsstring \<Rightarrow> child_result" where
  "succeeded out = \<lparr>error = None, stdout = out, stderr = []\<rparr>"

definition exited :: "int \<Rightarrow> child_result" where
  "exited n = \<lparr>error = Some \<lparr>code = CodeNumber n\<rparr>, stdout = [], stderr = []\<rparr>"

definition no_opts :: opts where
  "no_opts = \<lparr>opt_learn = False, opt_feat = False, opt_style = False, opt_fix = False,
              opt_chore = False, opt_doc = False, opt_refactor = False, opt_test = False,
              opt_try = False, opt_build = False\<rparr>"

text \<open>
  Two files are staged, the message \<open>login crash\<close> is given, the user picks the third
  type (\<open>fix\<close>), and every child process succeeds.
\<close>

definition example_world :: "opts world" where
  "example_world =
     \<lparr>options = no_opts,
      args = [ascii ''login crash''],
      version = ascii ''1.2.3'',
      child = (\<lambda>c. if c = git_diff_command
                    then succeeded (ascii ''src/a.ts'' @ [0x0A] @ ascii ''src/b.ts'' @ [0x0A])
                    else if c = npm_show_command then succeeded (ascii ''1.2.4'' @ [0x0A])
                    else succeeded []),
      answer_node_modules = False,
      answer_many_files = False,
      typed_messages = [[], ascii ''repair login''],
      selected_type = 2\<rparr>"

definition fix_login_crash :: jsstring where
  "fix_login_crash =
     git_commit_command (ascii ''fix '' @ [0xD83D, 0xDC1B]) (ascii ''login crash'')"

definition fix_repair_login :: jsstring where
  "fix_repair_login =
     git_commit_command (ascii ''fix '' @ [0xD83D, 0xDC1B]) (ascii ''repair login'')"

text \<open>The run of \<open>example_world\<close> in which the commit ends with status 128.\<close>

definition world_conflict :: "opts world" where
  "world_conflict =
     example_world\<lparr>child := (\<lambda>c. if c = fix_login_crash then exited 128
                                 else child example_world c)\<rparr>"

text \<open>No message is given: the user submits an empty line, then \<open>repair login\<close>.\<close>

definition world_no_message :: "opts world" where
  "world_no_message = example_world\<lparr>args := []\<rparr>"

definition no_legacy_opts :: legacy_opts where
  "no_legacy_opts = \<lparr>lopt_style = False, lopt_bug = False, lopt_improve = False,
                     lopt_release = False, lopt_new = False, lopt_doc = False,
                     lopt_try = False, lopt_test = False\<rparr>"

text \<open>
  A run of the earlier version without option and without message: the user picks the
  first type and submits an empty line, then \<open>repair login\<close>.
\<close>

definition legacy_example_world :: "legacy_opts world" where
  "legacy_example_world =
     \<lparr>options = no_legacy_opts,
      args = [],
      version = ascii ''1.2.3'',
      child = (\<lambda>c. if c = npm_show_command then succeeded (ascii ''1.2.4'' @ [0x0A])
                    else succeeded []),
      answer_node_modules = False,
      answer_many_files = False,
      typed_messages = [[], ascii ''repair login''],
      selected_type = 0\<rparr>"

definition bug_repair_login :: jsstring where
  "bug_repair_login =
     git_commit_command ([0xD83D, 0xDC1B] @ ascii ''  BUG'') (ascii ''repair login'')"

text \<open>Runs whose message starts with the prefix of a type of the table.\<close>

definition feat_login_form :: jsstring where
  "feat_login_form = [0xD83D, 0xDCE6] @ ascii ''  feat: login form''"

definition world_prefixed :: "opts world" where
  "world_prefixed = example_world\<lparr>args := [feat_login_form]\<rparr>"

definition refactor_parser :: jsstring where
  "refactor_parser = [0xD83D, 0xDEE0, 0x20] @ ascii ''  refactor: parser''"

definition world_refactor :: "opts world" where
  "world_refactor = example_world\<lparr>args := [refactor_parser]\<rparr>"

text \<open>A run with a staged file under \<open>node_modules\<close>, and a run with 31 staged files.\<close>

definition world_node_modules :: "opts world" where
  "world_node_modules =
     example_world\<lparr>child := (\<lambda>c. if c = git_diff_command
         then succeeded (ascii ''node_modules/left-pad/index.js'' @ [0x0A] @ ascii ''src/a.ts'' @ [0x0A])
         else child example_world c)\<rparr>"

definition world_many_files :: "opts world" where
  "world_many_files =
     example_world\<lparr>child := (\<lambda>c. if c = git_diff_command
         then succeeded (concat (replicate 31 (ascii ''f'' @ [0x0A])))
         else child example_world c)\<rparr>"

text \<open>The commit command ends with status 1; the listing of the staged files ends with 128.\<close>

definition world_commit_fails :: "opts world" where
  "world_commit_fails =
     example_world\<lparr>child := (\<lambda>c. if c = fix_login_crash then exited 1
                                 else child example_world c)\<rparr>"

definition world_not_a_repository :: "opts world" where
  "world_not_a_repository =
     example_world\<lparr>child := (\<lambda>c. if c = git_diff_command then exited 128
                                 else child example_world c)\<rparr>"

text \<open>The option \<open>--fix\<close> is set and the user picks the first type (\<open>feat\<close>).\<close>

definition world_fix_flag :: "opts world" where
  "world_fix_flag = example_world\<lparr>options := no_opts\<lparr>opt_fix := True\<rparr>, selected_type := 0\<rparr>"

definition feat_login_crash :: jsstring where
  "feat_login_crash =
     git_commit_command (ascii ''feat '' @ [0xD83D, 0xDCE6]) (ascii ''login crash'')"

text \<open>
  Nothing is staged: the listing prints nothing and ends with status 0, and the commit
  command ends with status 1.
\<close>

definition world_nothing_staged :: "opts world" where
  "world_nothing_staged =
     example_world\<lparr>child := (\<lambda>c. if c = git_diff_command then succeeded []
                                 else if c = fix_login_crash then exited 1
                                 else child example_world c)\<rparr>"

text \<open>
  A run of the earlier version with the option \<open>--bug\<close>: version 1.2.9 is installed and
  1.2.10 is published.
\<close>

definition world_patch_release :: "legacy_opts world" where
  "world_patch_release =
     legacy_example_world
       \<lparr>options := no_legacy_opts\<lparr>lopt_bug := True\<rparr>,
        args := [ascii ''login crash''],
        version := ascii ''1.2.9'',
        child := (\<lambda>c. if c = npm_show_command then succeeded (ascii ''1.2.10'' @ [0x0A])
                       else succeeded [])\<rparr>"

definition bug_login_crash :: jsstring where
  "bug_login_crash =
     git_commit_command ([0xD83D, 0xDC1B] @ ascii ''  BUG'') (ascii ''login crash'')"

section \<open>Facts about the parts of a run\<close>

lemma fst_bind_run:
  "fst (bind_run m f) = (case snd m of Inl e \<Rightarrow> fst m | Inr x \<Rightarrow> fst m @ fst (f x))"
  by (auto simp: bind_run_def split: prod.splits sum.splits)

lemma snd_bind_run:
  "snd (bind_run m f) = (case snd m of Inl e \<Rightarrow> Inl e | Inr x \<Rightarrow> snd (f x))"
  by (auto simp: bind_run_def split: prod.splits sum.splits)

lemma bind_run_Inr [simp]: "bind_run (t, Inr x) f = (t @ fst (f x), snd (f x))"
  by (simp add: bind_run_def split: prod.splits)

lemma bind_run_Inl [simp]: "bind_run (t, Inl e) f = (t, Inl e)"
  by (simp add: bind_run_def)

lemma is_commit_git_commit_command [simp]: "is_commit_command (git_commit_command a b)"
  by (simp add: is_commit_command_def git_commit_command_def startsWith_def ascii_def)

lemma not_commit_npm [simp]: "\<not> is_commit_command npm_show_command"
  by (simp add: is_commit_command_def npm_show_command_def startsWith_def ascii_def)

lemma not_commit_diff [simp]: "\<not> is_commit_command git_diff_command"
  by (simp add: is_commit_command_def git_diff_command_def startsWith_def ascii_def)

lemma exec_fst [simp]: "fst (exec w c) = [Exec c]"
  by (simp add: exec_def)

lemma checkVersion_no_commit [simp]: "filter is_commit (checkVersion w) = []"
  by (auto simp: checkVersion_def exec_def update_notice_def Let_def split: option.splits)

lemma makeCommit_commits [simp]:
  "filter is_commit (fst (makeCommit w ct m)) = [Exec (git_commit_command (commitTypeFormated ct) m)]"
  by (auto simp: makeCommit_def exec_def commitTypeFormated_def Let_def split: option.splits)

lemma makeCommit_returns [simp]: "snd (makeCommit w ct m) = Inr ()"
  by (auto simp: makeCommit_def exec_def Let_def split: option.splits)

lemma getStagedFiles_fst [simp]: "fst (getStagedFiles w) = [Exec git_diff_command]"
  by (auto simp: getStagedFiles_def exec_def split: option.splits)

lemma input_loop_accepts:
  "input_loop validate ms = (t, Inr m) \<Longrightarrow> List.find (\<lambda>m. m \<noteq> []) ms = Some m"
  by (induction ms arbitrary: t) (auto simp: validate_def split: if_splits prod.splits)

lemma input_loop_no_exec [simp]: "filter is_commit (fst (input_loop validate ms)) = []"
  by (induction ms) (auto simp: validate_def split: if_splits prod.splits)


lemma getStagedFiles_eq: "getStagedFiles w = ([Exec git_diff_command], snd (getStagedFiles w))"
  by (metis getStagedFiles_fst prod.collapse)

lemma main_reaches:
  assumes "reaches_message w" and "snd (getStagedFiles w) = Inr stagedFiles"
  shows "main w = (Exec git_diff_command # confirmations stagedFiles @ fst (main_message w),
                   snd (main_message w))"
proof -
  have g: "getStagedFiles w = ([Exec git_diff_command], Inr stagedFiles)"
    using assms(2) getStagedFiles_eq [of w] by simp
  show ?thesis
    using assms(1)
    by (simp add: main_def g reaches_message_def main_many_files_def confirmations_def
        staged_node_modules_def confirmCommitWithNodeModules_def confirmCommitHasManyFiles_def
        prompt_confirm_def STAGED_FILES_WARNING_THRESHOLD_def emit_def)
qed

lemma main_stopped:
  assumes "\<not> reaches_message w"
  shows "filter is_commit (fst (main w)) = [] \<and> filter is_message_prompt (fst (main w)) = [] \<and>
         filter is_type_prompt (fst (main w)) = []"
proof (cases "snd (getStagedFiles w)")
  case (Inl e)
  then have g: "getStagedFiles w = ([Exec git_diff_command], Inl e)"
    using getStagedFiles_eq [of w] by simp
  show ?thesis
    by (simp add: main_def g emit_def learn_more_def)
next
  case (Inr stagedFiles)
  then have g: "getStagedFiles w = ([Exec git_diff_command], Inr stagedFiles)"
    using getStagedFiles_eq [of w] by simp
  show ?thesis
    using assms
    by (auto simp add: main_def g reaches_message_def main_many_files_def
        staged_node_modules_def confirmCommitWithNodeModules_def confirmCommitHasManyFiles_def
        prompt_confirm_def STAGED_FILES_WARNING_THRESHOLD_def emit_def learn_more_def canceled_def no_files_staged_def)
qed


lemma validate_no_prompt [simp]:
  "filter is_message_prompt (fst (input_loop validate ms)) = []"
  "filter is_type_prompt (fst (input_loop validate ms)) = []"
  by (induction ms) (auto simp: validate_def split: if_splits prod.splits)

lemma has_recognized_prefix_find:
  "has_recognized_prefix m \<longleftrightarrow> find_commitType m \<noteq> None"
  by (auto simp add: has_recognized_prefix_def find_commitType_def find_None_iff list_ex_iff)

lemma has_recognized_prefix_nonempty: "has_recognized_prefix m \<Longrightarrow> m \<noteq> []"
  by (auto simp: has_recognized_prefix_def Object_values_def commitTypes_def startsWith_def ascii_def)

lemma fst_prompt_input [simp]:
  "fst (prompt_input w q v) = PromptInput q # fst (input_loop v (typed_messages w))"
  by (simp add: prompt_input_def split: prod.splits)

lemma snd_prompt_input [simp]:
  "snd (prompt_input w q v) = snd (input_loop v (typed_messages w))"
  by (simp add: prompt_input_def split: prod.splits)

lemma input_loop_accepts':
  "snd (input_loop validate ms) = Inr m \<Longrightarrow> List.find (\<lambda>m. m \<noteq> []) ms = Some m"
  by (metis input_loop_accepts prod.collapse)

lemma input_loop_not_rejected: "snd (input_loop validate ms) \<noteq> Inl (Rejected e)"
  by (induction ms) (auto simp: validate_def split: if_splits prod.splits)

lemma prompt_questions_no_commit [simp]: "filter is_commit (fst (prompt_questions w)) = []"
  by (simp add: prompt_questions_def prompt_list_def ret_def fst_bind_run snd_bind_run
      split: sum.splits)

lemma prompt_questions_answers:
  assumes "snd (prompt_questions w) = Inr a"
  shows "selected_type w < length choices \<and> answers_commitType a = choices ! selected_type w \<and>
         (if when_commitMessage w
          then \<exists>m. answers_commitMessage a = Some m \<and>
                   List.find (\<lambda>m. m \<noteq> []) (typed_messages w) = Some m
          else answers_commitMessage a = None)"
  using assms
  by (auto simp: prompt_questions_def prompt_list_def ret_def fst_bind_run snd_bind_run
      dest: input_loop_accepts' split: sum.splits if_splits)

lemma prompt_questions_not_rejected: "snd (prompt_questions w) \<noteq> Inl (Rejected e)"
  using input_loop_not_rejected [of "typed_messages w" e]
  by (auto simp: prompt_questions_def prompt_list_def ret_def fst_bind_run snd_bind_run
      split: sum.splits if_splits)

lemma prompt_questions_message_prompt:
  "filter is_message_prompt (fst (prompt_questions w)) \<noteq> [] \<longleftrightarrow> when_commitMessage w"
  by (simp add: prompt_questions_def prompt_list_def ret_def fst_bind_run snd_bind_run
      split: sum.splits)

lemma checkVersion_no_prompt [simp]: "filter is_prompt (checkVersion w) = []"
  by (auto simp: checkVersion_def exec_def update_notice_def Let_def split: option.splits)

lemma makeCommit_no_prompt [simp]: "filter is_prompt (fst (makeCommit w ct m)) = []"
  by (auto simp: makeCommit_def exec_def Let_def split: option.splits)

lemma no_prompt_no_message_prompt:
  "filter is_prompt t = [] \<Longrightarrow> filter is_message_prompt t = []"
  by (induction t) (auto split: if_splits elim: is_message_prompt.elims)

lemma no_prompt_no_type_prompt:
  "filter is_prompt t = [] \<Longrightarrow> filter is_type_prompt t = []"
  by (induction t) (auto split: if_splits elim: is_type_prompt.elims)

lemma makeCommit_no_message_prompt [simp]:
  "filter is_message_prompt (fst (makeCommit w ct m)) = []"
  by (simp add: no_prompt_no_message_prompt)

lemma makeCommit_no_type_prompt [simp]:
  "filter is_type_prompt (fst (makeCommit w ct m)) = []"
  by (simp add: no_prompt_no_type_prompt)

lemma main_message_prefix:
  assumes "nth_opt (args w) 0 = Some m" and "has_recognized_prefix m"
  shows "main_message w = ([looks_good], Inr ())"
  using assms has_recognized_prefix_nonempty [of m]
  by (auto simp: main_message_def has_recognized_prefix_find is_falsy_def template_def emit_def Let_def)

lemma main_message_commit:
  assumes "filter is_message_prompt (fst (main_message w)) \<noteq> []"
  shows "filter is_commit (fst (main_message w)) = [] \<or>
         (\<exists>m. List.find (\<lambda>m. m \<noteq> []) (typed_messages w) = Some m \<and>
              filter is_commit (fst (main_message w)) =
                [Exec (git_commit_command (commitTypeFormated (choices ! selected_type w)) m)])"
proof (cases "snd (prompt_questions w)")
  case (Inl e)
  then show ?thesis
    by (simp add: main_message_def Let_def fst_bind_run emit_def looks_good_def split: option.splits)
next
  case (Inr a)
  note a = prompt_questions_answers [OF Inr]
  show ?thesis
  proof (cases "when_commitMessage w")
    case True
    then have f: "is_falsy (nth_opt (args w) 0)"
      by (cases "args w") (auto simp: when_commitMessage_def is_falsy_def)
    from a True obtain m where m: "answers_commitMessage a = Some m"
      "List.find (\<lambda>m. m \<noteq> []) (typed_messages w) = Some m" by auto
    show ?thesis
      using f m a by (simp add: main_message_def Let_def fst_bind_run Inr template_def)
  next
    case False
    then show ?thesis
      using assms prompt_questions_message_prompt [of w]
      by (simp add: main_message_def Let_def fst_bind_run emit_def looks_good_def
          split: option.splits sum.splits if_splits)
  qed
qed

lemma main_message_type_prompt:
  assumes "filter is_type_prompt (fst (main_message w)) \<noteq> []" and "nth_opt (args w) 0 = Some m"
  shows "\<not> has_recognized_prefix m"
  using assms main_message_prefix [of w m] by (auto simp: looks_good_def)

lemma main_message_commit_once: "length (filter is_commit (fst (main_message w))) \<le> 1"
  by (simp add: main_message_def Let_def fst_bind_run emit_def looks_good_def
      split: option.splits sum.splits)

lemma main_message_not_rejected: "snd (main_message w) \<noteq> Inl (Rejected e)"
  using prompt_questions_not_rejected [of w e]
  by (auto simp: main_message_def Let_def snd_bind_run emit_def split: option.splits sum.splits)

lemma confirmations_no_commit [simp]: "filter is_commit (confirmations fs) = []"
  by (simp add: confirmations_def)

lemma main_commit_once: "length (filter is_commit (fst (main w))) \<le> 1"
proof (cases "reaches_message w")
  case True
  then obtain fs where "snd (getStagedFiles w) = Inr fs"
    by (auto simp: reaches_message_def split: sum.splits)
  from main_reaches [OF True this] main_message_commit_once [of w] show ?thesis
    by simp
next
  case False
  then show ?thesis by (simp add: main_stopped)
qed

lemma choice_fix: "commitTypeFormated (choices ! 2) = ascii ''fix '' @ [0xD83D, 0xDC1B]"
  by (simp add: commitTypeFormated_def choices_def Object_values_def commitTypes_def
      replace_first_quote_def replace_colon_rest_def dquote_def ascii_def
      isLineTerminator_def)

lemma legacy_checkVersion_no_commit [simp]: "filter is_commit (legacy_checkVersion w) = []"
  by (simp add: legacy_checkVersion_def legacy_update_notice_def Let_def)

lemma legacy_checkVersion_no_prompt [simp]: "filter is_prompt (legacy_checkVersion w) = []"
  by (simp add: legacy_checkVersion_def legacy_update_notice_def Let_def)

lemma legacy_makeCommit_commits [simp]:
  "filter is_commit (legacy_makeCommit w (git_commit_command a b)) =
     [Exec (git_commit_command a b)]"
  by (simp add: legacy_makeCommit_def)

lemma legacy_makeCommit_no_message_prompt [simp]:
  "filter is_message_prompt (legacy_makeCommit w c) = []"
  by (simp add: legacy_makeCommit_def no_prompt_no_message_prompt)

lemma main_message_prompt_commit:
  assumes "filter is_message_prompt (fst (main w)) \<noteq> []"
  shows "filter is_commit (fst (main w)) = [] \<or>
         (\<exists>m. List.find (\<lambda>m. m \<noteq> []) (typed_messages w) = Some m \<and>
              filter is_commit (fst (main w)) =
                [Exec (git_commit_command (commitTypeFormated (choices ! selected_type w)) m)])"
proof -
  have r: "reaches_message w"
    using assms main_stopped [of w] by auto
  then obtain fs where fs: "snd (getStagedFiles w) = Inr fs"
    by (auto simp: reaches_message_def split: sum.splits)
  have c: "filter is_message_prompt (confirmations fs) = []"
    by (simp add: confirmations_def)
  from main_reaches [OF r fs] assms c
  have "filter is_message_prompt (fst (main_message w)) \<noteq> []" by simp
  from main_message_commit [OF this] main_reaches [OF r fs] show ?thesis by simp
qed

lemma legacy_main_flag:
  "legacy_label (options w) = Some l \<Longrightarrow>
   legacy_main w = (legacy_makeCommit w (legacy_command l (args w)), Inr ())"
  unfolding legacy_main_def legacy_label_def
  by (simp split: if_splits)

lemma legacy_main_no_flag:
  "legacy_label (options w) = None \<Longrightarrow> legacy_main w = legacy_interactive w"
  unfolding legacy_main_def legacy_label_def
  by (simp split: if_splits)

lemma legacy_interactive_commit:
  assumes "filter is_message_prompt (fst (legacy_interactive w)) \<noteq> []"
  shows "filter is_commit (fst (legacy_interactive w)) = [] \<or>
         (\<exists>m. List.find (\<lambda>m. m \<noteq> []) (typed_messages w) = Some m \<and>
              filter is_commit (fst (legacy_interactive w)) =
                [Exec (git_commit_command
                   (commitTypeFormated (JSON_stringify (legacy_choices ! selected_type w))) m)])"
proof (cases "is_falsy (nth_opt (args w) 0)")
  case True
  then show ?thesis
    by (auto simp: legacy_interactive_def fst_bind_run snd_bind_run emit_def ret_def
        prompt_list_def Let_def commitTypeFormated_def
        dest: input_loop_accepts' split: sum.splits)
next
  case False
  then have "length (args w) \<noteq> 0"
    by (cases "args w") (auto simp: is_falsy_def)
  with False assms show ?thesis
    by (simp add: legacy_interactive_def fst_bind_run snd_bind_run emit_def ret_def
        prompt_list_def Let_def legacy_command_def legacy_makeCommit_def
        no_prompt_no_message_prompt split: sum.splits if_splits)
qed

lemma legacy_main_message_prompt_commit:
  assumes "filter is_message_prompt (fst (legacy_main w)) \<noteq> []"
  shows "filter is_commit (fst (legacy_main w)) = [] \<or>
         (\<exists>m. List.find (\<lambda>m. m \<noteq> []) (typed_messages w) = Some m \<and>
              filter is_commit (fst (legacy_main w)) =
                [Exec (git_commit_command
                   (commitTypeFormated (JSON_stringify (legacy_choices ! selected_type w))) m)])"
proof (cases "legacy_label (options w)")
  case None
  with assms legacy_interactive_commit [of w] show ?thesis
    by (simp add: legacy_main_no_flag)
next
  case (Some l)
  with assms show ?thesis by (simp add: legacy_main_flag)
qed

lemma find_nonempty: "List.find (\<lambda>m. m \<noteq> []) ms = Some m \<Longrightarrow> m \<noteq> []"
  by (auto simp: find_Some_iff)

text \<open>The definitions that evaluate a run of an example.\<close>

lemmas run_defs =
  main_def main_many_files_def main_message_def getStagedFiles_def exec_def bind_run_def
  example_world_def succeeded_def exited_def no_opts_def git_diff_command_def
  npm_show_command_def ascii_def trim_def isWhiteSpace_def isLineTerminator_def
  STAGED_FILES_WARNING_THRESHOLD_def startsWith_def is_falsy_def template_def
  find_commitType_def Object_values_def commitTypes_def prompt_questions_def
  when_commitMessage_def prompt_input_def prompt_list_def validate_def ret_def emit_def
  choices_def makeCommit_def replace_first_quote_def replace_colon_rest_def
  git_commit_command_def dquote_def checkVersion_def update_notice_def is_commit_command_def
  confirmCommitWithNodeModules_def confirmCommitHasManyFiles_def prompt_confirm_def
  canceled_def looks_good_def no_files_staged_def learn_more_def

lemmas legacy_run_defs =
  legacy_main_def legacy_interactive_def legacy_example_world_def no_legacy_opts_def
  legacy_choices_def legacy_makeCommit_def legacy_command_def legacy_checkVersion_def
  legacy_update_notice_def slice_0_minus1_def JSON_stringify_def quote_unit_def
  isLeadSurrogate_def isTrailSurrogate_def

lemma world_no_message_prompt:
  "filter is_message_prompt (fst (main world_no_message)) =
     [PromptInput (ascii ''What's your commit title/message?'')]"
  by (simp add: run_defs world_no_message_def)

lemma world_no_message_commit:
  "filter is_commit (fst (main world_no_message)) = [Exec fix_repair_login]"
  by (simp add: run_defs world_no_message_def fix_repair_login_def)

lemma legacy_example_prompt:
  "filter is_message_prompt (fst (legacy_main legacy_example_world)) =
     [PromptInput (ascii ''What's your commit title/message?'')]"
  by (simp add: run_defs legacy_run_defs)

lemma legacy_example_commit:
  "filter is_commit (fst (legacy_main legacy_example_world)) = [Exec bug_repair_login]"
  by (simp add: run_defs legacy_run_defs bug_repair_login_def)

lemma main_stopped_execs:
  assumes "\<not> reaches_message w"
  shows "filter is_exec (fst (main w)) =
           (if opt_learn (options w) then [] else [Exec git_diff_command])"
proof (cases "snd (getStagedFiles w)")
  case (Inl e)
  then have g: "getStagedFiles w = ([Exec git_diff_command], Inl e)"
    using getStagedFiles_eq [of w] by simp
  show ?thesis
    by (simp add: main_def g emit_def learn_more_def)
next
  case (Inr stagedFiles)
  then have g: "getStagedFiles w = ([Exec git_diff_command], Inr stagedFiles)"
    using getStagedFiles_eq [of w] by simp
  show ?thesis
    using assms
    by (auto simp add: main_def g reaches_message_def main_many_files_def
        staged_node_modules_def confirmCommitWithNodeModules_def confirmCommitHasManyFiles_def
        prompt_confirm_def STAGED_FILES_WARNING_THRESHOLD_def emit_def learn_more_def
        canceled_def no_files_staged_def)
qed

lemma confirmations_filters [simp]:
  "filter is_exec (confirmations fs) = []"
  "filter is_console (confirmations fs) = []"
  "filter is_type_prompt (confirmations fs) = []"
  "filter is_message_prompt (confirmations fs) = []"
  by (simp_all add: confirmations_def)

lemma main_prefix_reaches:
  assumes "nth_opt (args w) 0 = Some m" and "has_recognized_prefix m" and "reaches_message w"
  shows "\<exists>fs. snd (getStagedFiles w) = Inr fs \<and>
              main w = (Exec git_diff_command # confirmations fs @ [looks_good], Inr ())"
proof -
  from assms(3) obtain fs where fs: "snd (getStagedFiles w) = Inr fs"
    by (auto simp: reaches_message_def split: sum.splits)
  from main_reaches [OF assms(3) fs] main_message_prefix [OF assms(1,2)] fs
  show ?thesis by simp
qed

lemma type_prompt_shown:
  assumes "reaches_message w" and "nth_opt (args w) 0 = Some m" and "m \<noteq> []"
    and "\<not> has_recognized_prefix m"
  shows "filter is_type_prompt (fst (main w)) \<noteq> []"
proof -
  from assms(1) obtain fs where fs: "snd (getStagedFiles w) = Inr fs"
    by (auto simp: reaches_message_def split: sum.splits)
  have "\<not> when_commitMessage w"
    using assms(2,3) by (cases "args w") (auto simp: when_commitMessage_def is_falsy_def)
  then have "filter is_type_prompt (fst (main_message w)) \<noteq> []"
    using assms(2,3,4)
    by (simp add: main_message_def Let_def is_falsy_def template_def has_recognized_prefix_find
        fst_bind_run prompt_questions_def ret_def prompt_list_def split: sum.splits)
  with main_reaches [OF assms(1) fs] show ?thesis by simp
qed

lemma world_prefixed_arg: "nth_opt (args world_prefixed) 0 = Some feat_login_form"
  by (simp add: world_prefixed_def example_world_def)

lemma feat_login_form_prefix: "has_recognized_prefix feat_login_form"
  by (simp add: has_recognized_prefix_def feat_login_form_def Object_values_def
      commitTypes_def startsWith_def ascii_def)

lemma world_prefixed_reaches: "reaches_message world_prefixed"
  by (simp add: reaches_message_def world_prefixed_def staged_node_modules_def run_defs)

lemma world_refactor_arg: "nth_opt (args world_refactor) 0 = Some refactor_parser"
  by (simp add: world_refactor_def example_world_def)

lemma refactor_parser_prefix: "has_recognized_prefix refactor_parser"
  by (simp add: has_recognized_prefix_def refactor_parser_def Object_values_def
      commitTypes_def startsWith_def ascii_def)

lemma world_refactor_reaches: "reaches_message world_refactor"
  by (simp add: reaches_message_def world_refactor_def staged_node_modules_def run_defs)

lemma example_world_reaches: "reaches_message example_world"
  by (simp add: reaches_message_def staged_node_modules_def run_defs)

lemma example_world_arg: "nth_opt (args example_world) 0 = Some (ascii ''login crash'')"
  by (simp add: example_world_def)

lemma login_crash_no_prefix: "\<not> has_recognized_prefix (ascii ''login crash'')"
  by (simp add: has_recognized_prefix_def Object_values_def commitTypes_def startsWith_def
      ascii_def)

lemma startsWith_iff: "startsWith s p \<longleftrightarrow> (\<exists>b. s = p @ b)"
proof
  assume "startsWith s p"
  then have "s = p @ drop (length p) s"
    unfolding startsWith_def by (metis append_take_drop_id)
  then show "\<exists>b. s = p @ b" ..
next
  assume "\<exists>b. s = p @ b"
  then show "startsWith s p"
    unfolding startsWith_def by auto
qed

lemma includes_str_iff: "includes_str s p \<longleftrightarrow> (\<exists>a b. s = a @ p @ b)"
proof (induction s)
  case Nil
  then show ?case by auto
next
  case (Cons x xs)
  show ?case
  proof
    assume "includes_str (x # xs) p"
    then consider "startsWith (x # xs) p" | "includes_str xs p" by auto
    then show "\<exists>a b. x # xs = a @ p @ b"
    proof cases
      case 1
      then obtain b where "x # xs = p @ b" by (auto simp: startsWith_iff)
      then have "x # xs = [] @ p @ b" by simp
      then show ?thesis by blast
    next
      case 2
      with Cons.IH obtain a b where "xs = a @ p @ b" by auto
      then have "x # xs = (x # a) @ p @ b" by simp
      then show ?thesis by blast
    qed
  next
    assume "\<exists>a b. x # xs = a @ p @ b"
    then obtain a b where ab: "x # xs = a @ p @ b" by auto
    show "includes_str (x # xs) p"
    proof (cases a)
      case Nil
      with ab have "startsWith (x # xs) p" by (auto simp: startsWith_iff)
      then show ?thesis by simp
    next
      case (Cons y ys)
      with ab have "xs = ys @ p @ b" by simp
      with Cons.IH show ?thesis by auto
    qed
  qed
qed
lemma main_staged:
  assumes "\<not> opt_learn (options w)" and "snd (getStagedFiles w) = Inr fs"
  shows "main w =
    (if fs = [] then ([Exec git_diff_command, no_files_staged], Inr ())
     else if staged_node_modules fs \<and> \<not> answer_node_modules w
     then ([Exec git_diff_command, PromptConfirm node_modules_question, canceled], Inr ())
     else if length fs > 30 \<and> \<not> answer_many_files w
     then (Exec git_diff_command # confirmations fs @ [canceled], Inr ())
     else (Exec git_diff_command # confirmations fs @ fst (main_message w),
           snd (main_message w)))"
proof -
  have g: "getStagedFiles w = ([Exec git_diff_command], Inr fs)"
    using assms(2) getStagedFiles_eq [of w] by simp
  show ?thesis
    using assms(1)
    by (simp add: main_def g main_many_files_def confirmations_def
        staged_node_modules_def confirmCommitWithNodeModules_def confirmCommitHasManyFiles_def
        prompt_confirm_def STAGED_FILES_WARNING_THRESHOLD_def emit_def)
qed

lemma main_learn: "opt_learn (options w) \<Longrightarrow> main w = ([learn_more], Inr ())"
  by (simp add: main_def emit_def)

lemma many_files_question_neq: "many_files_question n \<noteq> node_modules_question"
  by (simp add: many_files_question_def node_modules_question_def ascii_def)

lemma no_prompt_no_confirm: "filter is_prompt t = [] \<Longrightarrow> filter is_confirm t = []"
  by (induction t) (auto split: if_splits elim: is_confirm.elims)

lemma input_loop_no_confirm [simp]: "filter is_confirm (fst (input_loop validate ms)) = []"
  by (induction ms) (auto simp: validate_def split: if_splits prod.splits)

lemma prompt_questions_no_confirm [simp]:
  "filter is_confirm (fst (prompt_questions w)) = []"
  by (simp add: prompt_questions_def prompt_list_def ret_def fst_bind_run snd_bind_run
      split: sum.splits)

lemma makeCommit_no_confirm [simp]: "filter is_confirm (fst (makeCommit w ct m)) = []"
  by (simp add: no_prompt_no_confirm)

lemma main_message_no_confirm: "filter is_confirm (fst (main_message w)) = []"
  by (simp add: main_message_def Let_def fst_bind_run emit_def looks_good_def
      split: option.splits sum.splits)

lemma confirm_not_in_message: "PromptConfirm q \<notin> set (fst (main_message w))"
proof
  assume "PromptConfirm q \<in> set (fst (main_message w))"
  then have "PromptConfirm q \<in> set (filter is_confirm (fst (main_message w)))" by simp
  then show False by (simp add: main_message_no_confirm)
qed

lemma world_node_modules_staged:
  "snd (getStagedFiles world_node_modules) =
     Inr [ascii ''node_modules/left-pad/index.js'', ascii ''src/a.ts'']"
  by (simp add: world_node_modules_def run_defs)

lemma node_modules_file_staged:
  "staged_node_modules [ascii ''node_modules/left-pad/index.js'', ascii ''src/a.ts'']"
  by (simp add: staged_node_modules_def startsWith_def ascii_def)

lemma world_many_files_staged:
  "snd (getStagedFiles world_many_files) = Inr (replicate 31 (ascii ''f''))"
  by code_simp

lemma many_files_no_node_modules: "\<not> staged_node_modules (replicate 31 (ascii ''f''))"
  by code_simp

lemma example_world_staged:
  "snd (getStagedFiles example_world) = Inr [ascii ''src/a.ts'', ascii ''src/b.ts'']"
  by (simp add: run_defs)

lemma snd_getStagedFiles:
  "snd (getStagedFiles w) =
     (case error (child w git_diff_command) of
        None \<Rightarrow> Inr (split 0x0A (trim (stdout (child w git_diff_command))))
      | Some e \<Rightarrow> if code e = CodeNumber 1 then Inr [] else Inl (Rejected e))"
  by (simp add: getStagedFiles_def exec_def split: option.splits)

lemma main_listing_fails:
  assumes "\<not> opt_learn (options w)" and "snd (getStagedFiles w) = Inl f"
  shows "main w = ([Exec git_diff_command], Inl f)"
proof -
  have g: "getStagedFiles w = ([Exec git_diff_command], Inl f)"
    using assms(2) getStagedFiles_eq [of w] by simp
  show ?thesis using assms(1) by (simp add: main_def g)
qed

lemma main_message_commit_returns:
  "filter is_commit (fst (main_message w)) \<noteq> [] \<Longrightarrow> snd (main_message w) = Inr ()"
  by (simp add: main_message_def Let_def fst_bind_run snd_bind_run emit_def looks_good_def
      split: option.splits sum.splits if_splits)

lemma main_rejected_iff:
  "snd (main w) = Inl (Rejected e) \<longleftrightarrow>
     \<not> opt_learn (options w) \<and> error (child w git_diff_command) = Some e \<and>
     code e \<noteq> CodeNumber 1"
proof (cases "opt_learn (options w)")
  case True
  then show ?thesis by (simp add: main_learn)
next
  case False
  show ?thesis
  proof (cases "snd (getStagedFiles w)")
    case (Inl f)
    with False main_listing_fails [OF False Inl] show ?thesis
      by (auto simp: snd_getStagedFiles split: option.splits if_splits)
  next
    case (Inr fs)
    have "snd (main w) \<noteq> Inl (Rejected e)"
      using main_message_not_rejected [of w e]
      by (simp add: main_staged [OF False Inr])
    with False Inr show ?thesis
      by (auto simp: snd_getStagedFiles split: option.splits if_splits)
  qed
qed

lemma main_commit_returns:
  assumes "filter is_commit (fst (main w)) \<noteq> []"
  shows "snd (main w) = Inr ()"
proof -
  have r: "reaches_message w"
    using assms main_stopped [of w] by auto
  then obtain fs where fs: "snd (getStagedFiles w) = Inr fs"
    by (auto simp: reaches_message_def split: sum.splits)
  from main_reaches [OF r fs] assms
  have "filter is_commit (fst (main_message w)) \<noteq> []" by simp
  from main_message_commit_returns [OF this] main_reaches [OF r fs] show ?thesis by simp
qed

lemma split_not_empty: "split sep s \<noteq> []"
  by (induction s) (auto split: list.splits)

lemma getStagedFiles_empty_iff:
  "snd (getStagedFiles w) = Inr [] \<longleftrightarrow>
     (\<exists>e. error (child w git_diff_command) = Some e \<and> code e = CodeNumber 1)"
  by (auto simp: getStagedFiles_def exec_def split_not_empty split: option.splits if_splits)

lemma main_no_files:
  assumes "\<not> opt_learn (options w)" and "snd (getStagedFiles w) = Inr []"
  shows "main w = ([Exec git_diff_command, no_files_staged], Inr ())"
  by (simp add: main_staged [OF assms])

lemma exec_options [simp]: "exec (w\<lparr>options := os\<rparr>) c = exec w c"
  by (simp add: exec_def split: option.splits)

lemma checkVersion_options [simp]: "checkVersion (w\<lparr>options := os\<rparr>) = checkVersion w"
  by (simp add: checkVersion_def split: prod.splits sum.splits)

lemma getStagedFiles_options [simp]: "getStagedFiles (w\<lparr>options := os\<rparr>) = getStagedFiles w"
  by (simp add: getStagedFiles_def split: prod.splits sum.splits)

lemma makeCommit_options [simp]: "makeCommit (w\<lparr>options := os\<rparr>) ct m = makeCommit w ct m"
  by (simp add: makeCommit_def Let_def split: prod.splits sum.splits)

lemma prompt_questions_options [simp]:
  "prompt_questions (w\<lparr>options := os\<rparr>) = prompt_questions w"
  by (simp add: prompt_questions_def when_commitMessage_def prompt_input_def prompt_list_def
      cong: if_cong)

lemma main_message_options [simp]: "main_message (w\<lparr>options := os\<rparr>) = main_message w"
  by (simp add: main_message_def Let_def cong: if_cong option.case_cong)

lemma main_many_files_options [simp]:
  "main_many_files (w\<lparr>options := os\<rparr>) fs = main_many_files w fs"
  by (simp add: main_many_files_def confirmCommitHasManyFiles_def cong: if_cong)

lemma main_ignores_type_options:
  assumes "opt_learn os = opt_learn (options w)"
  shows "main (w\<lparr>options := os\<rparr>) = main w"
  using assms by (simp add: main_def confirmCommitWithNodeModules_def cong: if_cong)

lemma legacy_flags_share_short_name: "\<not> distinct (map fst legacy_option_flags)"
  by (simp add: legacy_option_flags_def)

lemma flags_distinct_short_names: "distinct (map fst option_flags)"
  by (simp add: option_flags_def)

lemma checkVersion_notice_iff:
  assumes "error (child w npm_show_command) = None"
  shows "checkVersion w =
           Exec npm_show_command #
           (if version_component (trim (stdout (child w npm_show_command))) 0 \<noteq>
                 version_component (version w) 0 \<or>
               version_component (trim (stdout (child w npm_show_command))) 1 \<noteq>
                 version_component (version w) 1
            then [update_notice (trim (stdout (child w npm_show_command)))] else [])"
  using assms by (simp add: checkVersion_def exec_def version_component_def Let_def)

lemma split_dot_component:
  assumes "0x2E \<notin> set a"
  shows "split 0x2E (a @ 0x2E # rest) = a # split 0x2E rest"
  using assms by (induction a) auto

lemma version_components:
  assumes "0x2E \<notin> set major" and "0x2E \<notin> set minor"
  shows "version_component (major @ [0x2E] @ minor @ [0x2E] @ patch) 0 = Some major"
    and "version_component (major @ [0x2E] @ minor @ [0x2E] @ patch) 1 = Some minor"
  using assms by (simp_all add: version_component_def split_dot_component)

lemma world_commit_fails_commit:
  "filter is_commit (fst (main world_commit_fails)) = [Exec fix_login_crash]"
  by (simp add: world_commit_fails_def fix_login_crash_def run_defs)

lemma world_not_a_repository_listing:
  "\<not> opt_learn (options world_not_a_repository) \<and>
   error (child world_not_a_repository git_diff_command) = Some \<lparr>code = CodeNumber 128\<rparr>"
  by (simp add: world_not_a_repository_def example_world_def no_opts_def exited_def)

lemma makeCommit_success:
  assumes "error (child w (git_commit_command (commitTypeFormated ct) m)) = None"
  shows "\<exists>logs. fst (makeCommit w ct m) =
           Exec (git_commit_command (commitTypeFormated ct) m) # logs @ checkVersion w \<and>
           filter is_exec logs = []"
  using assms
  by (simp add: makeCommit_def exec_def commitTypeFormated_def Let_def)

lemma checkVersion_patch_only:
  assumes "error (child w npm_show_command) = None"
    and "trim (stdout (child w npm_show_command)) = major @ [0x2E] @ minor @ [0x2E] @ patch"
    and "version w = major @ [0x2E] @ minor @ [0x2E] @ patch'"
    and "0x2E \<notin> set major" and "0x2E \<notin> set minor"
  shows "checkVersion w = [Exec npm_show_command]"
  using assms(2,3) version_components [OF assms(4,5)]
  by (simp add: checkVersion_notice_iff [OF assms(1)])

lemma checkVersion_minor_differs:
  assumes "error (child w npm_show_command) = None"
    and "trim (stdout (child w npm_show_command)) = major @ [0x2E] @ minor @ [0x2E] @ patch"
    and "version w = major' @ [0x2E] @ minor' @ [0x2E] @ patch'"
    and "0x2E \<notin> set major" and "0x2E \<notin> set minor"
    and "0x2E \<notin> set major'" and "0x2E \<notin> set minor'"
    and "major \<noteq> major' \<or> minor \<noteq> minor'"
  shows "checkVersion w =
           [Exec npm_show_command, update_notice (major @ [0x2E] @ minor @ [0x2E] @ patch)]"
  using assms(2,3,8) version_components [OF assms(4,5)] version_components [OF assms(6,7)]
  by (auto simp add: checkVersion_notice_iff [OF assms(1)])

section \<open>The claims\<close>

text \<open>
  C1. \<open>validate\<close> returns \<open>true\<close> for every string that is not empty and \<open>0\<close> for the
  empty string. In every run that shows the commit message prompt, of this version and
  of the earlier one, a commit command, if one is run, carries the first line the user
  submitted that is not empty.
\<close>

theorem empty_commit_message_rejected:
  "snd (validate v) = (if v \<noteq> [] then JBool True else JNum 0) \<and>
   (filter is_message_prompt (fst (main w)) \<noteq> [] \<longrightarrow>
      filter is_commit (fst (main w)) = [] \<or>
      (\<exists>m. m \<noteq> [] \<and> List.find (\<lambda>m. m \<noteq> []) (typed_messages w) = Some m \<and>
           filter is_commit (fst (main w)) =
             [Exec (git_commit_command (commitTypeFormated (choices ! selected_type w)) m)])) \<and>
   (filter is_message_prompt (fst (legacy_main lw)) \<noteq> [] \<longrightarrow>
      filter is_commit (fst (legacy_main lw)) = [] \<or>
      (\<exists>m. m \<noteq> [] \<and> List.find (\<lambda>m. m \<noteq> []) (typed_messages lw) = Some m \<and>
           filter is_commit (fst (legacy_main lw)) =
             [Exec (git_commit_command
                (commitTypeFormated (JSON_stringify (legacy_choices ! selected_type lw))) m)]))"
  using main_message_prompt_commit [of w] legacy_main_message_prompt_commit [of lw]
  by (auto simp: validate_def dest: find_nonempty)

theorem empty_commit_message_rejected_witness:
  "snd (validate []) = JNum 0 \<and>
   filter is_message_prompt (fst (main world_no_message)) \<noteq> [] \<and>
   filter is_commit (fst (main world_no_message)) = [Exec fix_repair_login] \<and>
   filter is_message_prompt (fst (legacy_main legacy_example_world)) \<noteq> [] \<and>
   filter is_commit (fst (legacy_main legacy_example_world)) = [Exec bug_repair_login]"
  using empty_commit_message_rejected [of "[]" world_no_message legacy_example_world]
  by (simp add: world_no_message_prompt world_no_message_commit legacy_example_prompt
      legacy_example_commit)

text \<open>
  C2. When the first argument starts with the prefix of a type of the table (its emoji,
  two spaces, its name), no run asks for the type or for the message, and a run that
  gets to the message ends with the line that the message looks good. The type is asked
  for only when the message has no such prefix, and then it is asked for.
\<close>

theorem recognized_prefix_accepted_without_prompt:
  "(nth_opt (args w) 0 = Some m \<and> has_recognized_prefix m \<longrightarrow>
      filter is_type_prompt (fst (main w)) = [] \<and>
      filter is_message_prompt (fst (main w)) = [] \<and>
      (reaches_message w \<longrightarrow> last (fst (main w)) = looks_good \<and> snd (main w) = Inr ())) \<and>
   (filter is_type_prompt (fst (main w)) \<noteq> [] \<longrightarrow>
      (\<forall>m'. nth_opt (args w) 0 = Some m' \<longrightarrow> \<not> has_recognized_prefix m')) \<and>
   (reaches_message w \<and> nth_opt (args w) 0 = Some m \<and> m \<noteq> [] \<and> \<not> has_recognized_prefix m \<longrightarrow>
      filter is_type_prompt (fst (main w)) \<noteq> [])"
proof -
  have a: "filter is_type_prompt (fst (main w)) = [] \<and>
           filter is_message_prompt (fst (main w)) = [] \<and>
           (reaches_message w \<longrightarrow> last (fst (main w)) = looks_good \<and> snd (main w) = Inr ())"
    if p: "nth_opt (args w) 0 = Some m'" "has_recognized_prefix m'" for m'
  proof (cases "reaches_message w")
    case True
    from main_prefix_reaches [OF p True] show ?thesis
      by (auto simp: looks_good_def)
  next
    case False
    then show ?thesis by (simp add: main_stopped)
  qed
  show ?thesis
    using a type_prompt_shown [of w m] by blast
qed

theorem recognized_prefix_accepted_without_prompt_witness:
  "nth_opt (args world_prefixed) 0 = Some feat_login_form \<and>
   has_recognized_prefix feat_login_form \<and> reaches_message world_prefixed \<and>
   filter is_type_prompt (fst (main world_prefixed)) = [] \<and>
   last (fst (main world_prefixed)) = looks_good \<and>
   \<not> has_recognized_prefix (ascii ''login crash'') \<and>
   filter is_type_prompt (fst (main example_world)) \<noteq> []"
proof -
  have n: "ascii ''login crash'' \<noteq> []"
    by (simp add: ascii_def)
  have a: "filter is_type_prompt (fst (main world_prefixed)) = [] \<and>
           last (fst (main world_prefixed)) = looks_good"
    using recognized_prefix_accepted_without_prompt [of world_prefixed feat_login_form]
      world_prefixed_arg feat_login_form_prefix world_prefixed_reaches
    by blast
  have b: "filter is_type_prompt (fst (main example_world)) \<noteq> []"
    using recognized_prefix_accepted_without_prompt [of example_world "ascii ''login crash''"]
      example_world_reaches example_world_arg login_crash_no_prefix n
    by blast
  show ?thesis
    using a b world_prefixed_arg feat_login_form_prefix world_prefixed_reaches
      login_crash_no_prefix
    by blast
qed

text \<open>
  C3. The options of \<open>main\<close> for the commit types are declared and never read: in the
  run of \<open>world_fix_flag\<close> the option \<open>--fix\<close> is set, the type is asked for all the
  same, and the commit carries the type the user picks, \<open>feat\<close>. In the earlier version
  two options share the short name \<open>-r\<close>.
\<close>

theorem type_flag_is_ignored:
  "opt_fix (options world_fix_flag) \<and>
   filter is_type_prompt (fst (main world_fix_flag)) =
     [PromptList (ascii ''Select a commit type:'') choices] \<and>
   filter is_commit (fst (main world_fix_flag)) = [Exec feat_login_crash] \<and>
   \<not> distinct (map fst legacy_option_flags)"
  by (simp add: world_fix_flag_def feat_login_crash_def run_defs legacy_option_flags_def)

text \<open>
  C4. When nothing is staged the listing prints nothing, and \<open>getStagedFiles\<close> returns
  one empty file name, not the empty list: the run does not report that no files are
  staged, asks for the commit type and runs the commit command.
\<close>

theorem nothing_staged_is_not_reported:
  "stdout (child world_nothing_staged git_diff_command) = [] \<and>
   getStagedFiles world_nothing_staged = ([Exec git_diff_command], Inr [[]]) \<and>
   no_files_staged \<notin> set (fst (main world_nothing_staged)) \<and>
   filter is_type_prompt (fst (main world_nothing_staged)) =
     [PromptList (ascii ''Select a commit type:'') choices] \<and>
   filter is_commit (fst (main world_nothing_staged)) = [Exec fix_login_crash]"
  by (simp add: world_nothing_staged_def fix_login_crash_def run_defs)

text \<open>
  C5. When a staged file has \<open>node_modules\<close> in its path, a run that lists the staged
  files asks for the confirmation right after the listing, before anything else; a run
  with the \<open>learn\<close> option has no commit command at all. When the user declines, no
  commit command is run, and the run ends with the line that the commit is canceled.
\<close>

theorem node_modules_needs_confirmation:
  assumes "snd (getStagedFiles w) = Inr stagedFiles" and "staged_node_modules stagedFiles"
  shows "(opt_learn (options w) \<longrightarrow> filter is_commit (fst (main w)) = []) \<and>
         (\<not> opt_learn (options w) \<longrightarrow>
            (\<exists>rest. fst (main w) =
               Exec git_diff_command # PromptConfirm node_modules_question # rest)) \<and>
         (\<not> answer_node_modules w \<longrightarrow> filter is_commit (fst (main w)) = []) \<and>
         (\<not> opt_learn (options w) \<and> \<not> answer_node_modules w \<longrightarrow>
            main w = ([Exec git_diff_command, PromptConfirm node_modules_question, canceled],
                      Inr ()))"
proof (cases "opt_learn (options w)")
  case True
  then show ?thesis by (simp add: main_learn learn_more_def)
next
  case False
  have ne: "stagedFiles \<noteq> []"
    using assms(2) by (auto simp: staged_node_modules_def)
  have c: "confirmations stagedFiles = PromptConfirm node_modules_question #
      (if length stagedFiles > 30
       then [PromptConfirm (many_files_question (length stagedFiles))] else [])"
    using assms(2) by (simp add: confirmations_def)
  show ?thesis
  proof (cases "answer_node_modules w")
    case True
    with False ne assms(2) have "fst (main w) =
        Exec git_diff_command # confirmations stagedFiles @
          (if length stagedFiles > 30 \<and> \<not> answer_many_files w then [canceled]
           else fst (main_message w))"
      by (simp add: main_staged [OF False assms(1)])
    with c have "\<exists>rest. fst (main w) =
               Exec git_diff_command # PromptConfirm node_modules_question # rest"
      by simp
    with True False show ?thesis by simp
  next
    case n: False
    with False ne assms(2) have "main w =
      ([Exec git_diff_command, PromptConfirm node_modules_question, canceled], Inr ())"
      by (simp add: main_staged [OF False assms(1)])
    with False n show ?thesis by (simp add: canceled_def)
  qed
qed

theorem node_modules_needs_confirmation_witness:
  "snd (getStagedFiles world_node_modules) =
     Inr [ascii ''node_modules/left-pad/index.js'', ascii ''src/a.ts''] \<and>
   staged_node_modules [ascii ''node_modules/left-pad/index.js'', ascii ''src/a.ts''] \<and>
   filter is_commit (fst (main world_node_modules)) = [] \<and>
   main world_node_modules =
     ([Exec git_diff_command, PromptConfirm node_modules_question, canceled], Inr ())"
proof -
  have l: "\<not> opt_learn (options world_node_modules)"
    by (simp add: world_node_modules_def example_world_def no_opts_def)
  have a: "\<not> answer_node_modules world_node_modules"
    by (simp add: world_node_modules_def example_world_def)
  show ?thesis
    using node_modules_needs_confirmation
            [OF world_node_modules_staged node_modules_file_staged]
      world_node_modules_staged node_modules_file_staged l a
    by blast
qed

text \<open>
  C6. The confirmation for many files is asked for only when more than 30 files are
  staged, and it is asked for in every run with more than 30 staged files that gets to
  that check (the \<open>learn\<close> option is not set and the confirmation for \<open>node_modules\<close>,
  if asked for, is accepted). With more than 30 staged files and a user who declines, no
  commit command is run, and such a run ends with the line that the commit is canceled.
\<close>

theorem many_files_confirmation_above_threshold:
  assumes "snd (getStagedFiles w) = Inr stagedFiles"
  shows "(PromptConfirm (many_files_question n) \<in> set (fst (main w)) \<longrightarrow>
            length stagedFiles > 30) \<and>
         (length stagedFiles > 30 \<and> \<not> opt_learn (options w) \<and>
          (staged_node_modules stagedFiles \<longrightarrow> answer_node_modules w) \<longrightarrow>
            PromptConfirm (many_files_question (length stagedFiles)) \<in> set (fst (main w))) \<and>
         (length stagedFiles > 30 \<and> \<not> answer_many_files w \<longrightarrow>
            filter is_commit (fst (main w)) = []) \<and>
         (length stagedFiles > 30 \<and> \<not> answer_many_files w \<and> \<not> opt_learn (options w) \<and>
          (staged_node_modules stagedFiles \<longrightarrow> answer_node_modules w) \<longrightarrow>
            last (fst (main w)) = canceled \<and> snd (main w) = Inr ())"
proof (cases "opt_learn (options w)")
  case True
  then show ?thesis by (simp add: main_learn learn_more_def)
next
  case False
  show ?thesis
    using many_files_question_neq [of n] confirm_not_in_message [of "many_files_question n" w]
    by (auto simp add: main_staged [OF False assms(1)] confirmations_def canceled_def
        no_files_staged_def)
qed

theorem many_files_confirmation_above_threshold_witness:
  "snd (getStagedFiles world_many_files) = Inr (replicate 31 (ascii ''f'')) \<and>
   PromptConfirm (many_files_question 31) \<in> set (fst (main world_many_files)) \<and>
   filter is_commit (fst (main world_many_files)) = [] \<and>
   last (fst (main world_many_files)) = canceled \<and>
   PromptConfirm (many_files_question 2) \<notin> set (fst (main example_world))"
proof -
  have l: "\<not> opt_learn (options world_many_files)"
    by (simp add: world_many_files_def example_world_def no_opts_def)
  have a: "\<not> answer_many_files world_many_files"
    by (simp add: world_many_files_def example_world_def)
  have n: "length (replicate 31 (ascii ''f'')) = 31" "(30::nat) < 31"
    by simp_all
  have "PromptConfirm (many_files_question (length (replicate 31 (ascii ''f''))))
          \<in> set (fst (main world_many_files)) \<and>
        filter is_commit (fst (main world_many_files)) = [] \<and>
        last (fst (main world_many_files)) = canceled"
    using many_files_confirmation_above_threshold [OF world_many_files_staged]
      many_files_no_node_modules l a n
    by metis
  moreover have "PromptConfirm (many_files_question 2) \<notin> set (fst (main example_world))"
    using many_files_confirmation_above_threshold [OF example_world_staged, of 2]
    by auto
  ultimately show ?thesis
    using world_many_files_staged n by simp
qed

text \<open>
  C7. When the commit command fails, \<open>makeCommit\<close> looks at the code of the error: with
  128 it reports the unmerged files and asks to resolve the conflicts, with every other
  code it reports an unknown error. The command is run once, nothing else follows the
  report, and no run has more than one commit command.
\<close>

theorem commit_failure_classified_by_exit_code:
  assumes "error (child w (git_commit_command (commitTypeFormated ct) m)) = Some err"
  shows "makeCommit w ct m =
           (Exec (git_commit_command (commitTypeFormated ct) m) #
            (if code err = CodeNumber 128
             then [ConsoleError [JStr (ascii
                     ''Error: Committing is not possible because you have unmerged files.'')],
                   ConsoleError [JStr (ascii ''Please resolve the conflicts and try again.'')]]
             else [ConsoleError [JStr (ascii ''An unknown error occurred:''), JErr err]]),
            Inr ()) \<and>
         length (filter is_commit (fst (main w))) \<le> 1"
  using assms main_commit_once [of w]
  by (simp add: makeCommit_def exec_def commitTypeFormated_def Let_def)

theorem commit_failure_classified_by_exit_code_witness:
  "error (child world_conflict
            (git_commit_command (commitTypeFormated (choices ! 2)) (ascii ''login crash'')))
     = Some \<lparr>code = CodeNumber 128\<rparr> \<and>
   makeCommit world_conflict (choices ! 2) (ascii ''login crash'') =
     ([Exec fix_login_crash,
       ConsoleError [JStr (ascii
          ''Error: Committing is not possible because you have unmerged files.'')],
       ConsoleError [JStr (ascii ''Please resolve the conflicts and try again.'')]],
      Inr ())"
proof -
  have h: "error (child world_conflict
             (git_commit_command (commitTypeFormated (choices ! 2)) (ascii ''login crash'')))
           = Some \<lparr>code = CodeNumber 128\<rparr>"
    by (simp add: choice_fix world_conflict_def fix_login_crash_def exited_def)
  show ?thesis
    using h commit_failure_classified_by_exit_code [OF h]
    by (simp add: choice_fix fix_login_crash_def)
qed

text \<open>
  C8. The earlier \<open>checkVersion\<close> shows the update notice when 1.2.9 is installed and
  1.2.10 is published, although the two versions have the same first and second
  component: the run of \<open>world_patch_release\<close> commits and then shows the notice.
\<close>

theorem legacy_notice_on_patch_release:
  "version world_patch_release = ascii ''1.2.9'' \<and>
   stdout (child world_patch_release npm_show_command) = ascii ''1.2.10'' @ [0x0A] \<and>
   version_component (ascii ''1.2.10'') 0 = version_component (ascii ''1.2.9'') 0 \<and>
   version_component (ascii ''1.2.10'') 1 = version_component (ascii ''1.2.9'') 1 \<and>
   legacy_checkVersion world_patch_release =
     [Exec npm_show_command, legacy_update_notice (ascii ''1.2.10'' @ [0x0A])] \<and>
   legacy_main world_patch_release =
     ([Exec bug_login_crash, ConsoleLog [JStr []], Exec npm_show_command,
       legacy_update_notice (ascii ''1.2.10'' @ [0x0A])], Inr ())"
  by (simp add: world_patch_release_def legacy_run_defs run_defs version_component_def
      bug_login_crash_def)

text \<open>
  C9, as stated, fails: in the run of \<open>world_commit_fails\<close> the commit command ends
  with status 1 and \<open>main\<close> returns, just as it does in the run of \<open>example_world\<close>,
  where the commit command succeeds.
\<close>

theorem exit_mirrors_commit_counterexample:
  "filter is_commit (fst (main world_commit_fails)) = [Exec fix_login_crash] \<and>
   error (child world_commit_fails fix_login_crash) = Some \<lparr>code = CodeNumber 1\<rparr> \<and>
   exits_successfully (main world_commit_fails) \<and>
   filter is_commit (fst (main example_world)) = [Exec fix_login_crash] \<and>
   error (child example_world fix_login_crash) = None \<and>
   exits_successfully (main example_world)"
  by (simp add: exits_successfully_def world_commit_fails_def fix_login_crash_def run_defs)

text \<open>
  C9, amended. A run that has a commit command returns, whether the command succeeds
  or fails. \<open>main\<close> throws exactly when the \<open>learn\<close> option is not set and the listing of
  the staged files fails with a code other than 1, and it throws the error of the listing.
\<close>

theorem run_returns_whatever_the_commit_does:
  "(filter is_commit (fst (main w)) \<noteq> [] \<longrightarrow> exits_successfully (main w)) \<and>
   (snd (main w) = Inl (Rejected e) \<longleftrightarrow>
      \<not> opt_learn (options w) \<and> error (child w git_diff_command) = Some e \<and>
      code e \<noteq> CodeNumber 1)"
  using main_commit_returns [of w] main_rejected_iff [of w e]
  by (simp add: exits_successfully_def)

theorem run_returns_whatever_the_commit_does_witness:
  "filter is_commit (fst (main world_commit_fails)) \<noteq> [] \<and>
   exits_successfully (main world_commit_fails) \<and>
   snd (main world_not_a_repository) = Inl (Rejected \<lparr>code = CodeNumber 128\<rparr>)"
proof -
  have c: "filter is_commit (fst (main world_commit_fails)) \<noteq> []"
    by (simp add: world_commit_fails_commit)
  have "exits_successfully (main world_commit_fails)"
    using run_returns_whatever_the_commit_does [of world_commit_fails] c by blast
  moreover have "snd (main world_not_a_repository) = Inl (Rejected \<lparr>code = CodeNumber 128\<rparr>)"
    using run_returns_whatever_the_commit_does
            [of world_not_a_repository "\<lparr>code = CodeNumber 128\<rparr>"]
      world_not_a_repository_listing
    by simp
  ultimately show ?thesis using c by simp
qed

text \<open>
  C10. When the first argument starts with the prefix of a type of the table, no run
  has a commit command: the only child process of the run lists the staged files. A
  run that gets to the message prints the line that the message looks good, and nothing
  else, and returns.
\<close>

theorem recognized_prefix_runs_no_commit:
  assumes "nth_opt (args w) 0 = Some m" and "has_recognized_prefix m"
  shows "filter is_commit (fst (main w)) = [] \<and>
         filter is_exec (fst (main w)) =
           (if opt_learn (options w) then [] else [Exec git_diff_command]) \<and>
         (reaches_message w \<longrightarrow>
            filter is_console (fst (main w)) = [looks_good] \<and> snd (main w) = Inr ())"
proof (cases "reaches_message w")
  case True
  then have "\<not> opt_learn (options w)" by (simp add: reaches_message_def)
  with main_prefix_reaches [OF assms True] show ?thesis
    by (auto simp: looks_good_def)
next
  case False
  then show ?thesis by (simp add: main_stopped main_stopped_execs)
qed

theorem recognized_prefix_runs_no_commit_witness:
  "nth_opt (args world_refactor) 0 = Some refactor_parser \<and>
   has_recognized_prefix refactor_parser \<and> reaches_message world_refactor \<and>
   filter is_commit (fst (main world_refactor)) = [] \<and>
   filter is_exec (fst (main world_refactor)) = [Exec git_diff_command] \<and>
   filter is_console (fst (main world_refactor)) = [looks_good] \<and>
   snd (main world_refactor) = Inr ()"
proof -
  have l: "\<not> opt_learn (options world_refactor)"
    by (simp add: world_refactor_def example_world_def no_opts_def)
  show ?thesis
    using recognized_prefix_runs_no_commit [OF world_refactor_arg refactor_parser_prefix]
      world_refactor_arg refactor_parser_prefix world_refactor_reaches l
    by simp
qed

end
